theory Spec2Isabelle
  imports Main "HOL-Library.Extended_Nat" "HOL-Library.AList"
begin

section \<open>The connection pool of http.js (the Agent)\<close>

text \<open>
  The Agent of \<^verbatim>\<open>src/http.js\<close> keeps three JavaScript objects keyed by a destination
  name: \<^verbatim>\<open>requests\<close> (queued requests), \<^verbatim>\<open>sockets\<close> (busy connections) and
  \<^verbatim>\<open>freeSockets\<close> (idle connections). The model below follows the source function by
  function. Sockets and requests are JavaScript objects compared by identity, so they
  are natural numbers here; the fields of a socket that the Agent reads or writes live
  in a heap indexed by the socket's identity.
\<close>

subsection \<open>JavaScript values and the destination name\<close>

type_synonym sock = nat
type_synonym req = nat

text \<open>
  The values an option of the request may hold. \<^verbatim>\<open>if (options.host)\<close> tests
  truthiness: \<^verbatim>\<open>undefined\<close>, \<^verbatim>\<open>null\<close>, the empty string and the number 0 are falsy.
  Numbers are the non-negative integers (ports).
\<close>

datatype jsval = Undefined | Null | Str string | Num nat

fun truthy :: "jsval \<Rightarrow> bool" where
  "truthy Undefined = False"
| "truthy Null = False"
| "truthy (Str s) = (s \<noteq> [])"
| "truthy (Num n) = (n \<noteq> 0)"

definition digit_char :: "nat \<Rightarrow> char" where
  "digit_char d = ''0123456789'' ! d"

fun dec :: "nat \<Rightarrow> string" where
  "dec n = (if n < 10 then [digit_char n] else dec (n div 10) @ [digit_char (n mod 10)])"

text \<open>What \<^verbatim>\<open>name += v\<close> appends: the string conversion of the value.\<close>

fun toString :: "jsval \<Rightarrow> string" where
  "toString Undefined = ''undefined''"
| "toString Null = ''null''"
| "toString (Str s) = s"
| "toString (Num n) = dec n"

text \<open>
  The options of a request. Only the fields the Agent reads are named; the record is
  extensible, so any other field of the options object is the record's extension.
\<close>

record options =
  host :: jsval
  port :: jsval
  localAddress :: jsval
  keepAliveTimeoutMsecs :: jsval

text \<open>\<^verbatim>\<open>Agent.prototype.getName\<close> (lines 178-194).\<close>

definition getName :: "'a options_scheme \<Rightarrow> string" where
  "getName opts =
     (let name = '''';
          name = (if truthy (host opts) then name @ toString (host opts)
                  else name @ ''localhost'');
          name = name @ '':'';
          name = (if truthy (port opts) then name @ toString (port opts) else name);
          name = name @ '':'';
          name = (if truthy (localAddress opts) then name @ toString (localAddress opts)
                  else name);
          name = name @ '':''
      in name)"

text \<open>
  The key as the specification words it: host, port and local address joined by colons,
  an absent host replaced by \<^verbatim>\<open>localhost\<close>, an absent port or local address rendered
  empty. Absent is \<^verbatim>\<open>undefined\<close> or \<^verbatim>\<open>null\<close>; a present value is rendered as it is.
\<close>

fun absent :: "jsval \<Rightarrow> bool" where
  "absent Undefined = True"
| "absent Null = True"
| "absent _ = False"

definition spec_key :: "'a options_scheme \<Rightarrow> string" where
  "spec_key opts =
     (if absent (host opts) then ''localhost'' else toString (host opts)) @ '':'' @
     (if absent (port opts) then '''' else toString (port opts)) @ '':'' @
     (if absent (localAddress opts) then '''' else toString (localAddress opts)) @ '':''"

text \<open>The key the code computes: the same, with falsy in the place of absent.\<close>

definition falsy_key :: "'a options_scheme \<Rightarrow> string" where
  "falsy_key opts =
     (if truthy (host opts) then toString (host opts) else ''localhost'') @ '':'' @
     (if truthy (port opts) then toString (port opts) else '''') @ '':'' @
     (if truthy (localAddress opts) then toString (localAddress opts) else '''') @ '':''"

subsection \<open>The Agent, its sockets and its registry\<close>

text \<open>
  \<^verbatim>\<open>self.options\<close>: the constructor's options, laid over the options of every
  connection attempt by \<^verbatim>\<open>util._extend(options, self.options)\<close> in \<^verbatim>\<open>createSocket\<close>.
  A key the constructor's options do not have is \<open>None\<close>.
\<close>

record overlay =
  o_host :: "jsval option"
  o_port :: "jsval option"
  o_localAddress :: "jsval option"
  o_keepAliveTimeoutMsecs :: "jsval option"

definition over :: "jsval \<Rightarrow> jsval option \<Rightarrow> jsval" where
  "over v add = (case add of None \<Rightarrow> v | Some v' \<Rightarrow> v')"

definition util_extend :: "options \<Rightarrow> overlay \<Rightarrow> options" where
  "util_extend opts add =
     \<lparr>host = over (host opts) (o_host add),
      port = over (port opts) (o_port add),
      localAddress = over (localAddress opts) (o_localAddress add),
      keepAliveTimeoutMsecs = over (keepAliveTimeoutMsecs opts) (o_keepAliveTimeoutMsecs add)\<rparr>"

text \<open>
  The Agent's configuration, fixed by the constructor (lines 44-76): \<open>keepAlive\<close> is the
  truthiness of \<^verbatim>\<open>self.options.keepAlive\<close>; \<open>maxSockets\<close> and \<open>maxFreeSockets\<close> are
  natural numbers or \<^verbatim>\<open>Infinity\<close> (the default of \<^verbatim>\<open>maxSockets\<close>; that of
  \<^verbatim>\<open>maxFreeSockets\<close> is 256); \<open>tunnel\<close> says whether \<^verbatim>\<open>self.tunnelClient\<close> is set.
\<close>

record agent =
  aoptions :: overlay
  keepAlive :: bool
  maxSockets :: enat
  maxFreeSockets :: enat
  tunnel :: bool

text \<open>
  The fields of a socket the Agent reads or writes: \<^verbatim>\<open>destroyed\<close>; \<^verbatim>\<open>_httpMessage\<close>
  (\<open>None\<close> for null or undefined, \<open>Some b\<close> for a request whose \<^verbatim>\<open>shouldKeepAlive\<close> is
  \<open>b\<close>); the listeners \<^verbatim>\<open>_afterCreateSocket\<close> installs (\<^verbatim>\<open>onFree\<close>, \<^verbatim>\<open>onTunnelError\<close>,
  \<^verbatim>\<open>onClose\<close>, \<^verbatim>\<open>onRemove\<close>, \<^verbatim>\<open>_reapTimeout\<close>) and the options their closures hold.
\<close>

record socket =
  destroyed :: bool
  httpMessage :: "bool option"
  onFree :: bool
  onTunnelError :: bool
  onClose :: bool
  onRemove :: bool
  reapTimeout :: bool
  hookOptions :: options

datatype jserror = TypeError | ConnectError nat

text \<open>
  The two callbacks handed to \<^verbatim>\<open>createSocket\<close>: the one of \<^verbatim>\<open>addRequest\<close> (lines
  236-247), which holds its request, and the one of \<^verbatim>\<open>removeSocket\<close> (lines 362-368).
\<close>

datatype cont = AddRequestCb req | RemoveSocketCb

text \<open>
  What the Agent does to its collaborators: \<^verbatim>\<open>req.onSocket(socket)\<close>,
  \<^verbatim>\<open>req.emit('error', err)\<close>, and a call of the connector (\<^verbatim>\<open>_createConnection\<close>) made
  on behalf of a request for a name.
\<close>

datatype effect = OnSocket req sock | EmitError req jserror | Connect req string

type_synonym 'a registry = "(string \<times> 'a list) list"

text \<open>
  The state: the three objects of the Agent (a JavaScript object is an association list,
  its keys in insertion order), the heap of sockets, the identity of the next socket a
  connector makes, the tunnel connections under way (name, options, callback), and the
  effects so far.
\<close>

record world =
  requests :: "req registry"
  sockets :: "sock registry"
  freeSockets :: "sock registry"
  heap :: "sock \<Rightarrow> socket"
  nextSock :: nat
  pending :: "(string \<times> options \<times> cont) list"
  effects :: "effect list"

text \<open>\<^verbatim>\<open>obj[name]\<close> read as an array: the empty array when the key is undefined.\<close>

definition entry :: "'a registry \<Rightarrow> string \<Rightarrow> 'a list" where
  "entry m name = (case map_of m name of None \<Rightarrow> [] | Some xs \<Rightarrow> xs)"

abbreviation queue :: "world \<Rightarrow> string \<Rightarrow> req list" where
  "queue w name \<equiv> entry (requests w) name"

abbreviation busy :: "world \<Rightarrow> string \<Rightarrow> sock list" where
  "busy w name \<equiv> entry (sockets w) name"

abbreviation idle :: "world \<Rightarrow> string \<Rightarrow> sock list" where
  "idle w name \<equiv> entry (freeSockets w) name"

text \<open>
  The body of the \<^verbatim>\<open>forEach\<close> of \<^verbatim>\<open>removeSocket\<close> (lines 348-355): \<^verbatim>\<open>indexOf\<close> and
  \<^verbatim>\<open>splice(index, 1)\<close> remove the first occurrence; an emptied array is deleted.
\<close>

definition remove_from :: "sock registry \<Rightarrow> string \<Rightarrow> sock \<Rightarrow> sock registry" where
  "remove_from m name s =
     (case map_of m name of
        None \<Rightarrow> m
      | Some xs \<Rightarrow>
          if s \<in> set xs then
            (let xs' = remove1 s xs
             in if xs' = [] then AList.delete name m else AList.update name xs' m)
          else m)"

text \<open>\<^verbatim>\<open>self.requests[name].shift()\<close>, then the delete of an emptied queue.\<close>

definition shift_request :: "world \<Rightarrow> string \<Rightarrow> world" where
  "shift_request w name =
     (let rest = tl (queue w name)
      in w\<lparr>requests := (if rest = [] then AList.delete name (requests w)
                         else AList.update name rest (requests w))\<rparr>)"

text \<open>\<^verbatim>\<open>socket.destroy()\<close>, as far as the Agent sees it: the flag it reads.\<close>

definition destroy_socket :: "world \<Rightarrow> sock \<Rightarrow> world" where
  "destroy_socket w s = w\<lparr>heap := (heap w)(s := (heap w s)\<lparr>destroyed := True\<rparr>)\<rparr>"

text \<open>A socket as a connector makes it: live, with no request and no listener of the Agent.\<close>

definition no_options :: options where
  "no_options = \<lparr>host = Undefined, port = Undefined, localAddress = Undefined,
                 keepAliveTimeoutMsecs = Undefined\<rparr>"

definition new_socket :: socket where
  "new_socket = \<lparr>destroyed = False, httpMessage = None, onFree = False,
                 onTunnelError = False, onClose = False, onRemove = False,
                 reapTimeout = False, hookOptions = no_options\<rparr>"

definition alloc :: "world \<Rightarrow> world" where
  "alloc w = w\<lparr>heap := (heap w)(nextSock w := new_socket), nextSock := Suc (nextSock w)\<rparr>"

subsection \<open>Release, removal and creation\<close>

text \<open>
  The \<^verbatim>\<open>free\<close> listener of the Agent calls \<^verbatim>\<open>removeSocket\<close>, which calls
  \<^verbatim>\<open>createSocket\<close>, whose callback emits \<^verbatim>\<open>free\<close> on the new socket: the four functions
  are mutually recursive. The recursion ends because a socket fresh from the connector is
  not destroyed: the two ranks below bound the calls that remain.
\<close>

definition rank_remove :: "world \<Rightarrow> options \<Rightarrow> nat" where
  "rank_remove w opts = (if queue w (getName opts) \<noteq> [] then 4 else 0)"

definition rank_free :: "world \<Rightarrow> sock \<Rightarrow> options \<Rightarrow> nat" where
  "rank_free w s opts =
     (if \<not> destroyed (heap w s) \<and> queue w (getName opts) \<noteq> [] then 0
      else Suc (rank_remove w opts))"

text \<open>
  \<^item> \<open>free_handler\<close>: the Agent's \<^verbatim>\<open>free\<close> listener (lines 89-157). The calls
    \<^verbatim>\<open>setKeepAlive\<close> and \<^verbatim>\<open>unref\<close> touch nothing the Agent reads. The block of lines
    143-150 removes the socket's timeout listeners and installs \<^verbatim>\<open>_reapTimeout\<close> again,
    so it leaves \<open>reapTimeout\<close> as it was. The local array \<^verbatim>\<open>freeSockets\<close> is the one
    stored under the name at line 120; \<^verbatim>\<open>removeSocket\<close> does not touch it for a socket
    that is not destroyed, so the push of line 134 shows under the name.
  \<^item> \<open>removeSocket\<close>: lines 338-370.
  \<^item> \<open>createSocket\<close>: lines 258-284, with \<^verbatim>\<open>_createConnection\<close> (lines 167-175). The
    direct connector calls back at once with a new socket; the tunnel client calls back
    later, so the attempt is kept in \<open>pending\<close> (see \<open>tunnel_done\<close>).
  \<^item> \<open>afterCreateSocket\<close>: lines 286-336, then the callback with the socket:
    \<^verbatim>\<open>req.onSocket(socket)\<close> for \<^verbatim>\<open>addRequest\<close>, \<^verbatim>\<open>socket.emit('free')\<close> for
    \<^verbatim>\<open>removeSocket\<close>, which the listener \<^verbatim>\<open>onFree\<close> installed at line 308 passes to the
    Agent with the socket's options.
\<close>

function free_handler :: "agent \<Rightarrow> world \<Rightarrow> sock \<Rightarrow> options \<Rightarrow> world"
  and removeSocket :: "agent \<Rightarrow> world \<Rightarrow> sock \<Rightarrow> options \<Rightarrow> world"
  and createSocket :: "agent \<Rightarrow> world \<Rightarrow> req \<Rightarrow> options \<Rightarrow> cont \<Rightarrow> world"
  and afterCreateSocket :: "agent \<Rightarrow> world \<Rightarrow> string \<Rightarrow> options \<Rightarrow> sock \<Rightarrow> cont \<Rightarrow> world"
where
  "free_handler ag w s opts =
     (let name = getName opts in
      if \<not> destroyed (heap w s) \<and> queue w name \<noteq> [] then
        shift_request (w\<lparr>effects := effects w @ [OnSocket (hd (queue w name)) s]\<rparr>) name
      else if httpMessage (heap w s) = Some True \<and> \<not> destroyed (heap w s) \<and> keepAlive ag then
        (let freeLen = length (idle w name);
             count = freeLen + length (busy w name)
         in if enat count > maxSockets ag \<or> enat freeLen \<ge> maxFreeSockets ag then
              destroy_socket (removeSocket ag w s opts) s
            else
              (let w1 = w\<lparr>freeSockets := AList.update name (idle w name) (freeSockets w)\<rparr>;
                   w2 = w1\<lparr>heap := (heap w1)(s := (heap w1 s)\<lparr>httpMessage := None\<rparr>)\<rparr>;
                   w3 = removeSocket ag w2 s opts
               in w3\<lparr>freeSockets := AList.update name (idle w3 name @ [s]) (freeSockets w3)\<rparr>))
      else destroy_socket (removeSocket ag w s opts) s)"
| "removeSocket ag w s opts =
     (let name = getName opts;
          w1 = w\<lparr>sockets := remove_from (sockets w) name s\<rparr>;
          w2 = (if destroyed (heap w s)
                then w1\<lparr>freeSockets := remove_from (freeSockets w1) name s\<rparr> else w1)
      in if queue w2 name \<noteq> [] then
           createSocket ag w2 (hd (queue w2 name)) opts RemoveSocketCb
         else w2)"
| "createSocket ag w r opts cb =
     (let opts' = util_extend opts (aoptions ag);
          name = getName opts';
          w1 = w\<lparr>effects := effects w @ [Connect r name]\<rparr>
      in if tunnel ag then w1\<lparr>pending := pending w1 @ [(name, opts', cb)]\<rparr>
         else afterCreateSocket ag (alloc w1) name opts' (nextSock w1) cb)"
| "afterCreateSocket ag w name opts s cb =
     (let w1 = w\<lparr>sockets := AList.update name (busy w name @ [s]) (sockets w)\<rparr>;
          w2 = w1\<lparr>heap := (heap w1)(s := (heap w1 s)
                 \<lparr>onFree := True, onTunnelError := True, onClose := True, onRemove := True,
                  reapTimeout := (truthy (keepAliveTimeoutMsecs opts) \<or> reapTimeout (heap w1 s)),
                  hookOptions := opts\<rparr>)\<rparr>
      in case cb of
           AddRequestCb r \<Rightarrow> w2\<lparr>effects := effects w2 @ [OnSocket r s]\<rparr>
         | RemoveSocketCb \<Rightarrow> free_handler ag w2 s opts)"
  by pat_completeness auto
termination
  by (relation "measure (\<lambda>x. case x of
          Inl (Inl (ag, w, s, opts)) \<Rightarrow> rank_free w s opts
        | Inl (Inr (ag, w, s, opts)) \<Rightarrow> rank_remove w opts
        | Inr (Inl (ag, w, r, opts, cb)) \<Rightarrow> 3
        | Inr (Inr (ag, w, name, opts, s, cb)) \<Rightarrow> Suc (rank_free w s opts))")
     (auto simp: rank_free_def rank_remove_def alloc_def new_socket_def split: if_splits)

declare free_handler.simps [simp del] removeSocket.simps [simp del]
  createSocket.simps [simp del] afterCreateSocket.simps [simp del]

subsection \<open>Acquisition\<close>

text \<open>
  \<^verbatim>\<open>Agent.prototype.addRequest\<close> (lines 196-256). The legacy call
  \<^verbatim>\<open>addRequest(req, host, port, path)\<close> builds its options first (lines 199-205).
  \<^verbatim>\<open>socket.ref()\<close> touches nothing the Agent reads.
\<close>

definition legacy_options :: "string \<Rightarrow> jsval \<Rightarrow> options" where
  "legacy_options h p =
     \<lparr>host = Str h, port = p, localAddress = Undefined, keepAliveTimeoutMsecs = Undefined\<rparr>"

definition addRequest :: "agent \<Rightarrow> world \<Rightarrow> req \<Rightarrow> options \<Rightarrow> world" where
  "addRequest ag w r opts =
     (let name = getName opts;
          w1 = (if map_of (sockets w) name = None
                then w\<lparr>sockets := AList.update name [] (sockets w)\<rparr> else w);
          freeLen = length (idle w1 name);
          sockLen = freeLen + length (busy w1 name)
      in if freeLen \<noteq> 0 then
           (let s = hd (idle w1 name);
                rest = tl (idle w1 name);
                w2 = w1\<lparr>freeSockets := (if rest = [] then AList.delete name (freeSockets w1)
                                          else AList.update name rest (freeSockets w1))\<rparr>;
                w3 = w2\<lparr>effects := effects w2 @ [OnSocket r s]\<rparr>
            in w3\<lparr>sockets := AList.update name (busy w3 name @ [s]) (sockets w3)\<rparr>)
         else if enat sockLen < maxSockets ag then
           createSocket ag w1 r opts (AddRequestCb r)
         else
           w1\<lparr>requests := AList.update name (queue w1 name @ [r]) (requests w1)\<rparr>)"

subsection \<open>Events\<close>

text \<open>
  A listener that throws ends the event: the state at the throw is kept with the error.
\<close>

datatype outcome = Done world | Threw jserror world

text \<open>
  The Agent's \<^verbatim>\<open>tunnelError\<close> listener (lines 78-88). \<^verbatim>\<open>self.requests[name].length\<close>
  throws a TypeError when the name has no queue.
\<close>

definition tunnelError_handler :: "world \<Rightarrow> jserror \<Rightarrow> options \<Rightarrow> outcome" where
  "tunnelError_handler w err opts =
     (let name = getName opts
      in case map_of (requests w) name of
           None \<Rightarrow> Threw TypeError w
         | Some rs \<Rightarrow>
             if rs \<noteq> [] then
               Done (shift_request (w\<lparr>effects := effects w @ [EmitError (hd rs) err]\<rparr>) name)
             else Done w)"

text \<open>
  The events of a socket reach the Agent through the listeners of
  \<^verbatim>\<open>_afterCreateSocket\<close> (lines 305-334), each while it is installed: \<^verbatim>\<open>onFree\<close>,
  \<^verbatim>\<open>onTunnelError\<close>, \<^verbatim>\<open>onClose\<close>, \<^verbatim>\<open>onRemove\<close> (which removes the socket and then the
  listeners \<^verbatim>\<open>close\<close>, \<^verbatim>\<open>free\<close> and \<^verbatim>\<open>agentRemove\<close>), and \<^verbatim>\<open>_reapTimeout\<close> (lines
  297-301).
\<close>

definition emit_free :: "agent \<Rightarrow> world \<Rightarrow> sock \<Rightarrow> world" where
  "emit_free ag w s =
     (if onFree (heap w s) then free_handler ag w s (hookOptions (heap w s)) else w)"

definition emit_tunnelError :: "world \<Rightarrow> sock \<Rightarrow> jserror \<Rightarrow> outcome" where
  "emit_tunnelError w s err =
     (if onTunnelError (heap w s) then tunnelError_handler w err (hookOptions (heap w s))
      else Done w)"

definition emit_close :: "agent \<Rightarrow> world \<Rightarrow> sock \<Rightarrow> world" where
  "emit_close ag w s =
     (if onClose (heap w s) then removeSocket ag w s (hookOptions (heap w s)) else w)"

definition emit_agentRemove :: "agent \<Rightarrow> world \<Rightarrow> sock \<Rightarrow> world" where
  "emit_agentRemove ag w s =
     (if onRemove (heap w s) then
        (let w1 = removeSocket ag w s (hookOptions (heap w s))
         in w1\<lparr>heap := (heap w1)(s := (heap w1 s)
              \<lparr>onClose := False, onFree := False, onRemove := False\<rparr>)\<rparr>)
      else w)"

definition fire_reapTimeout :: "agent \<Rightarrow> world \<Rightarrow> sock \<Rightarrow> world" where
  "fire_reapTimeout ag w s =
     (if reapTimeout (heap w s) then
        removeSocket ag (destroy_socket w s) s (hookOptions (heap w s))
      else w)"

text \<open>
  \<^verbatim>\<open>Agent.prototype.destroy\<close> (lines 372-381): every socket of \<^verbatim>\<open>freeSockets\<close>, then
  every socket of \<^verbatim>\<open>sockets\<close>, key by key, is destroyed.
\<close>

definition destroy :: "world \<Rightarrow> world" where
  "destroy w =
     foldl destroy_socket w (concat (map snd (freeSockets w)) @ concat (map snd (sockets w)))"

text \<open>
  The tunnel client calls back for the \<open>k\<close>-th attempt under way: the callback of
  \<^verbatim>\<open>createSocket\<close> (lines 277-283). With an error it calls \<^verbatim>\<open>callback(err)\<close>, so the
  callback's \<^verbatim>\<open>socket\<close> is undefined: the one of \<^verbatim>\<open>addRequest\<close> emits the error on its
  request, the one of \<^verbatim>\<open>removeSocket\<close> evaluates \<^verbatim>\<open>socket.emit\<close> (line 364) and throws a
  TypeError. With a socket it goes on to \<^verbatim>\<open>_afterCreateSocket\<close>.
\<close>

definition tunnel_done :: "agent \<Rightarrow> world \<Rightarrow> nat \<Rightarrow> jserror option \<Rightarrow> outcome" where
  "tunnel_done ag w k res =
     (if k < length (pending w) then
        (case pending w ! k of
           (name, opts, cb) \<Rightarrow>
             (let w1 = w\<lparr>pending := take k (pending w) @ drop (Suc k) (pending w)\<rparr>
              in case res of
                   Some err \<Rightarrow>
                     (case cb of
                        AddRequestCb r \<Rightarrow> Done (w1\<lparr>effects := effects w1 @ [EmitError r err]\<rparr>)
                      | RemoveSocketCb \<Rightarrow> Threw TypeError w1)
                 | None \<Rightarrow> Done (afterCreateSocket ag (alloc w1) name opts (nextSock w1) cb)))
      else Done w)"

text \<open>
  What can happen to an Agent: its public operations, the events of its sockets, the
  tunnel client's callbacks, and the code outside the Agent that destroys a socket or
  assigns \<^verbatim>\<open>socket._httpMessage\<close>.
\<close>

datatype event =
    AddRequest req options
  | AddRequestLegacy req string jsval
  | Free sock
  | Close sock
  | AgentRemove sock
  | TunnelError sock jserror
  | ReapTimeout sock
  | TunnelDone nat "jserror option"
  | Destroy
  | SocketDestroy sock
  | SetHttpMessage sock "bool option"

fun step :: "agent \<Rightarrow> world \<Rightarrow> event \<Rightarrow> outcome" where
  "step ag w (AddRequest r opts) = Done (addRequest ag w r opts)"
| "step ag w (AddRequestLegacy r h p) = Done (addRequest ag w r (legacy_options h p))"
| "step ag w (Free s) = Done (emit_free ag w s)"
| "step ag w (Close s) = Done (emit_close ag w s)"
| "step ag w (AgentRemove s) = Done (emit_agentRemove ag w s)"
| "step ag w (TunnelError s err) = emit_tunnelError w s err"
| "step ag w (ReapTimeout s) = Done (fire_reapTimeout ag w s)"
| "step ag w (TunnelDone k res) = tunnel_done ag w k res"
| "step ag w Destroy = Done (destroy w)"
| "step ag w (SocketDestroy s) = Done (destroy_socket w s)"
| "step ag w (SetHttpMessage s m) =
     Done (w\<lparr>heap := (heap w)(s := (heap w s)\<lparr>httpMessage := m\<rparr>)\<rparr>)"

fun run :: "agent \<Rightarrow> world \<Rightarrow> event list \<Rightarrow> outcome" where
  "run ag w [] = Done w"
| "run ag w (e # es) =
     (case step ag w e of Done w' \<Rightarrow> run ag w' es | Threw err w' \<Rightarrow> Threw err w')"

text \<open>A new Agent (lines 56-58): three empty objects, no socket made yet.\<close>

definition init :: world where
  "init = \<lparr>requests = [], sockets = [], freeSockets = [],
           heap = (\<lambda>_. new_socket), nextSock = 0, pending = [], effects = []\<rparr>"

subsection \<open>Concrete pools\<close>

text \<open>The state an event leaves, and the error it threw, if any.\<close>

fun final :: "outcome \<Rightarrow> world" where
  "final (Done w) = w"
| "final (Threw err w) = w"

fun thrown :: "outcome \<Rightarrow> jserror option" where
  "thrown (Done w) = None"
| "thrown (Threw err w) = Some err"

text \<open>
  One destination, \<^verbatim>\<open>{host: 'a', port: 80}\<close>, and Agents whose constructor options name
  no host, port or local address: one with the direct connector and one with a tunnel
  client, both with \<^verbatim>\<open>maxSockets = 1\<close>, and one with \<^verbatim>\<open>maxFreeSockets = 1\<close>.
\<close>

definition dest :: options where
  "dest = \<lparr>host = Str ''a'', port = Num 80, localAddress = Undefined,
           keepAliveTimeoutMsecs = Undefined\<rparr>"

definition plain :: overlay where
  "plain = \<lparr>o_host = None, o_port = None, o_localAddress = None,
            o_keepAliveTimeoutMsecs = None\<rparr>"

definition direct_agent :: agent where
  "direct_agent = \<lparr>aoptions = plain, keepAlive = True, maxSockets = 1,
                   maxFreeSockets = 256, tunnel = False\<rparr>"

definition tunnel_agent :: agent where
  "tunnel_agent = \<lparr>aoptions = plain, keepAlive = True, maxSockets = 1,
                   maxFreeSockets = 256, tunnel = True\<rparr>"

definition one_free_agent :: agent where
  "one_free_agent = \<lparr>aoptions = plain, keepAlive = True, maxSockets = \<infinity>,
                     maxFreeSockets = 1, tunnel = False\<rparr>"

text \<open>
  Two requests got a socket each (0 and 1), both asked for keep-alive, and socket 0 was
  released: it is idle, socket 1 is busy.
\<close>

definition one_pooled :: world where
  "one_pooled = final (run one_free_agent init
      [AddRequest 1 dest, AddRequest 2 dest, SetHttpMessage 0 (Some True),
       SetHttpMessage 1 (Some True), Free 0])"

text \<open>At the limit of one socket: request 1 holds socket 0, request 2 waits.\<close>

definition one_waiting :: world where
  "one_waiting = final (run direct_agent init [AddRequest 1 dest, AddRequest 2 dest])"

text \<open>The same, and socket 0 has been destroyed before its release.\<close>

definition one_waiting_closed :: world where
  "one_waiting_closed =
     final (run direct_agent init [AddRequest 1 dest, AddRequest 2 dest, SocketDestroy 0])"

text \<open>A tunnel attempt made for the first request fails.\<close>

definition failed_acquire :: world where
  "failed_acquire =
     final (run tunnel_agent init [AddRequest 1 dest, TunnelDone 0 (Some (ConnectError 7))])"

text \<open>
  Through a tunnel: request 1 holds socket 0, request 2 waits, socket 0 closes, and the
  attempt to replace it fails.
\<close>

definition failed_replacement :: outcome where
  "failed_replacement =
     run tunnel_agent init
       [AddRequest 1 dest, TunnelDone 0 None, AddRequest 2 dest, SocketDestroy 0, Close 0,
        TunnelDone 0 (Some (ConnectError 7))]"

text \<open>
  Socket 0 is taken over (\<^verbatim>\<open>agentRemove\<close>); then request 2 gets socket 1 and request 3
  waits.
\<close>

definition taken_over :: world where
  "taken_over =
     final (run direct_agent init
       [AddRequest 1 dest, AgentRemove 0, AddRequest 2 dest, AddRequest 3 dest])"



subsection \<open>Runs of a pool\<close>

text \<open>The number of sockets the Agent tracks for a name, busy or idle.\<close>

definition count :: "world \<Rightarrow> string \<Rightarrow> nat" where
  "count w name = length (busy w name) + length (idle w name)"

text \<open>
  A consumer releases a socket it holds: the socket that emits \<^verbatim>\<open>free\<close> is not among
  the idle sockets of its name. A run conforms when every release in it is of this kind.
\<close>

definition held :: "world \<Rightarrow> event \<Rightarrow> bool" where
  "held w e =
     (case e of
        Free s \<Rightarrow> s \<notin> set (idle w (getName (hookOptions (heap w s))))
      | _ \<Rightarrow> True)"

fun conforming :: "agent \<Rightarrow> world \<Rightarrow> event list \<Rightarrow> bool" where
  "conforming ag w [] = True"
| "conforming ag w (e # es) =
     (held w e \<and>
      (case step ag w e of Done w' \<Rightarrow> conforming ag w' es | Threw err w' \<Rightarrow> True))"



text \<open>
  The destination with an idle timeout (\<^verbatim>\<open>keepAliveTimeoutMsecs\<close>), and a run at the
  limit of one socket: request 1 holds socket 0, requests 2 and 3 wait, the idle timer of
  socket 0 fires (\<^verbatim>\<open>_reapTimeout\<close> destroys and removes it), and the close event that
  the destruction causes follows.
\<close>

definition dest_reaped :: options where
  "dest_reaped = \<lparr>host = Str ''a'', port = Num 80, localAddress = Undefined,
                  keepAliveTimeoutMsecs = Num 5000\<rparr>"

definition reaped_then_closed :: "event list" where
  "reaped_then_closed =
     [AddRequest 1 dest_reaped, AddRequest 2 dest_reaped, AddRequest 3 dest_reaped,
      ReapTimeout 0, Close 0]"


text \<open>The same socket released \<open>n\<close> times in a row.\<close>

fun release_times :: "agent \<Rightarrow> world \<Rightarrow> sock \<Rightarrow> options \<Rightarrow> nat \<Rightarrow> world" where
  "release_times ag w s opts 0 = w"
| "release_times ag w s opts (Suc n) = release_times ag (free_handler ag w s opts) s opts n"

text \<open>At the limit of one socket: request 1 holds socket 0, requests 2 and 3 wait.\<close>

definition two_waiting :: world where
  "two_waiting =
     final (run direct_agent init [AddRequest 1 dest, AddRequest 2 dest, AddRequest 3 dest])"

text \<open>
  The Agent's own options name no host, port or local address, so that the merge of
  \<^verbatim>\<open>createSocket\<close> keeps the name of a request's options.
\<close>

definition keeps_name :: "agent \<Rightarrow> bool" where
  "keeps_name ag \<longleftrightarrow>
     o_host (aoptions ag) = None \<and> o_port (aoptions ag) = None \<and>
     o_localAddress (aoptions ag) = None"

text \<open>
  A removal that removes a socket or finds nobody waiting: the socket is busy under its
  name, or destroyed and idle under it, or the queue of the name is empty. A run is
  orderly when every release that reaches the Agent is of a busy socket and every
  removal that reaches it (close, \<^verbatim>\<open>agentRemove\<close>, idle timeout) is of this kind. What
  such a run keeps with the direct connector: no name has more tracked sockets than
  \<^verbatim>\<open>maxSockets\<close>, and no attempt is under way.
\<close>

definition removes :: "world \<Rightarrow> sock \<Rightarrow> bool" where
  "removes w s =
     (let name = getName (hookOptions (heap w s))
      in s \<in> set (busy w name) \<or> (destroyed (heap w s) \<and> s \<in> set (idle w name)) \<or>
         queue w name = [])"

definition orderly_event :: "world \<Rightarrow> event \<Rightarrow> bool" where
  "orderly_event w e =
     (case e of
        Free s \<Rightarrow> \<not> onFree (heap w s) \<or> s \<in> set (busy w (getName (hookOptions (heap w s))))
      | Close s \<Rightarrow> \<not> onClose (heap w s) \<or> removes w s
      | AgentRemove s \<Rightarrow> \<not> onRemove (heap w s) \<or> removes w s
      | ReapTimeout s \<Rightarrow> \<not> reapTimeout (heap w s) \<or> removes (destroy_socket w s) s
      | _ \<Rightarrow> True)"

fun orderly :: "agent \<Rightarrow> world \<Rightarrow> event list \<Rightarrow> bool" where
  "orderly ag w [] = True"
| "orderly ag w (e # es) =
     (orderly_event w e \<and>
      (case step ag w e of Done w' \<Rightarrow> orderly ag w' es | Threw err w' \<Rightarrow> True))"



text \<open>
  Runs outside the conditions: two acquisitions before the tunnel client calls back; an
  Agent whose own options bind a local address; a socket released again while it is idle.
\<close>

definition two_at_once :: "event list" where
  "two_at_once = [AddRequest 1 dest, AddRequest 2 dest, TunnelDone 0 None, TunnelDone 0 None]"

definition bound_agent :: agent where
  "bound_agent =
     \<lparr>aoptions = plain\<lparr>o_localAddress := Some (Str ''10.0.0.1'')\<rparr>, keepAlive = True,
      maxSockets = 1, maxFreeSockets = 256, tunnel = False\<rparr>"

definition released_twice :: "event list" where
  "released_twice =
     [AddRequest 1 dest, SetHttpMessage 0 (Some True), Free 0, SetHttpMessage 0 (Some True),
      Free 0, AddRequest 2 dest]"

section \<open>Properties\<close>

subsection \<open>The registry\<close>

lemma entry_update: "entry (AList.update k v m) k' = (if k' = k then v else entry m k')"
  by (simp add: entry_def update_conv')

lemma entry_delete: "entry (AList.delete k m) k' = (if k' = k then [] else entry m k')"
  by (simp add: entry_def delete_conv')

lemma entry_None: "map_of m k = None \<Longrightarrow> entry m k = []"
  by (simp add: entry_def)

lemma entry_Some: "map_of m k = Some xs \<Longrightarrow> entry m k = xs"
  by (simp add: entry_def)

lemma entry_remove_from:
  "entry (remove_from m name s) n = (if n = name then remove1 s (entry m name) else entry m n)"
  by (cases "map_of m name")
     (auto simp: remove_from_def entry_update entry_delete Let_def remove1_idem
        entry_None entry_Some)


lemma entry_member: "s \<in> set (entry m name) \<Longrightarrow> s \<in> set (concat (map snd m))"
proof -
  assume a: "s \<in> set (entry m name)"
  then obtain xs where x: "map_of m name = Some xs" and "s \<in> set xs"
    by (cases "map_of m name") (auto simp: entry_def)
  from x have "(name, xs) \<in> set m"
    by (rule map_of_SomeD)
  with \<open>s \<in> set xs\<close> show ?thesis
    by force
qed

text \<open>With nobody waiting, \<^verbatim>\<open>removeSocket\<close> only removes.\<close>

lemma removeSocket_no_queue:
  assumes "queue w (getName opts) = []"
  shows "removeSocket ag w s opts =
     (if destroyed (heap w s)
      then w\<lparr>sockets := remove_from (sockets w) (getName opts) s,
             freeSockets := remove_from (freeSockets w) (getName opts) s\<rparr>
      else w\<lparr>sockets := remove_from (sockets w) (getName opts) s\<rparr>)"
  using assms by (simp add: removeSocket.simps Let_def)

text \<open>The four ways through the \<^verbatim>\<open>free\<close> listener.\<close>

lemma free_handler_handoff:
  assumes "\<not> destroyed (heap w s)" "queue w (getName opts) \<noteq> []"
  shows "free_handler ag w s opts =
    shift_request (w\<lparr>effects := effects w @ [OnSocket (hd (queue w (getName opts))) s]\<rparr>)
      (getName opts)"
  using assms by (simp add: free_handler.simps [of ag w s opts] Let_def)




lemma foldl_destroy_socket_registry:
  "requests (foldl destroy_socket w xs) = requests w \<and>
   sockets (foldl destroy_socket w xs) = sockets w \<and>
   freeSockets (foldl destroy_socket w xs) = freeSockets w"
  by (induction xs arbitrary: w) (simp_all add: destroy_socket_def)

lemma foldl_destroy_socket_destroyed:
  "destroyed (heap (foldl destroy_socket w xs) s) \<longleftrightarrow> s \<in> set xs \<or> destroyed (heap w s)"
  by (induction xs arbitrary: w) (auto simp: destroy_socket_def)

subsection \<open>The destination name\<close>

text \<open>
  C10, as the code has it. \<^verbatim>\<open>getName\<close> is a function of the host, the port and the local
  address alone: it returns host, port and local address joined and ended by colons,
  with a falsy host (absent, null or the empty string) replaced by \<^verbatim>\<open>localhost\<close> and a
  falsy port or local address (absent, null, the empty string or 0) rendered empty. Two
  options objects that agree on the three fields have the same name whatever their
  other fields are, and no host gives the name of the host \<^verbatim>\<open>localhost\<close>.
\<close>

theorem getName_is_falsy_key:
  fixes a :: "'a options_scheme" and b :: "'b options_scheme"
  shows "getName a = falsy_key a \<and>
         (host a = host b \<and> port a = port b \<and> localAddress a = localAddress b
            \<longrightarrow> getName a = getName b) \<and>
         getName (a\<lparr>host := Undefined\<rparr>) = getName (a\<lparr>host := Str ''localhost''\<rparr>)"
  by (simp add: getName_def falsy_key_def Let_def)

text \<open>
  Witness for C10: two options objects for \<^verbatim>\<open>example.org:8080\<close> that differ in their
  idle timeout have the same name.
\<close>

theorem getName_is_falsy_key_witness:
  "getName \<lparr>host = Str ''example.org'', port = Num 8080, localAddress = Undefined,
            keepAliveTimeoutMsecs = Num 5\<rparr> =
   getName \<lparr>host = Str ''example.org'', port = Num 8080, localAddress = Undefined,
            keepAliveTimeoutMsecs = Undefined\<rparr>"
proof -
  let ?a = "\<lparr>host = Str ''example.org'', port = Num 8080, localAddress = Undefined,
             keepAliveTimeoutMsecs = Num 5\<rparr>"
  let ?b = "\<lparr>host = Str ''example.org'', port = Num 8080, localAddress = Undefined,
             keepAliveTimeoutMsecs = Undefined\<rparr>"
  have "host ?a = host ?b \<and> port ?a = port ?b \<and> localAddress ?a = localAddress ?b"
    by simp
  with getName_is_falsy_key [of ?a ?b] show ?thesis
    by blast
qed

text \<open>
  Counterexample to C10 as stated: the options \<^verbatim>\<open>{host: '', port: 0}\<close> have a host and a
  port, so the stated key is \<^verbatim>\<open>:0::\<close>; the code tests truthiness and returns
  \<^verbatim>\<open>localhost:::\<close>.
\<close>

theorem getName_empty_host_counterexample:
  "getName \<lparr>host = Str '''', port = Num 0, localAddress = Undefined,
            keepAliveTimeoutMsecs = Undefined\<rparr> = ''localhost:::'' \<and>
   spec_key \<lparr>host = Str '''', port = Num 0, localAddress = Undefined,
             keepAliveTimeoutMsecs = Undefined\<rparr> = '':0::''"
  by (simp add: getName_def spec_key_def Let_def digit_char_def)

subsection \<open>Acquisition from the idle sockets\<close>

text \<open>
  C4. When the idle sockets of the destination are \<open>s # rest\<close>, \<^verbatim>\<open>addRequest\<close> does not
  call the connector (no effect but the hand-over, no attempt under way, no new socket):
  the oldest idle socket \<open>s\<close> leaves the idle sockets, is appended to the busy ones and
  is handed to the request.
\<close>

theorem addRequest_reuses_free:
  assumes "idle w (getName opts) = s # rest"
  shows "idle (addRequest ag w r opts) (getName opts) = rest \<and>
         busy (addRequest ag w r opts) (getName opts) = busy w (getName opts) @ [s] \<and>
         effects (addRequest ag w r opts) = effects w @ [OnSocket r s] \<and>
         pending (addRequest ag w r opts) = pending w \<and>
         nextSock (addRequest ag w r opts) = nextSock w \<and>
         heap (addRequest ag w r opts) = heap w \<and>
         requests (addRequest ag w r opts) = requests w"
  using assms
  by (auto simp: addRequest_def Let_def entry_update entry_delete entry_None)

text \<open>
  Witness for C4: with socket 0 idle and socket 1 busy, request 3 is handed socket 0, and
  no socket is made.
\<close>

theorem addRequest_reuses_free_witness:
  "idle one_pooled ''a:80::'' = [0] \<and> busy one_pooled ''a:80::'' = [1] \<and>
   idle (addRequest one_free_agent one_pooled 3 dest) ''a:80::'' = [] \<and>
   busy (addRequest one_free_agent one_pooled 3 dest) ''a:80::'' = [1, 0] \<and>
   effects (addRequest one_free_agent one_pooled 3 dest) =
     effects one_pooled @ [OnSocket 3 0] \<and>
   nextSock (addRequest one_free_agent one_pooled 3 dest) = nextSock one_pooled"
proof -
  have n: "getName dest = ''a:80::''"
    by code_simp
  have e: "idle one_pooled ''a:80::'' = [0] \<and> busy one_pooled ''a:80::'' = [1]"
    by code_simp
  then have h: "idle one_pooled (getName dest) = 0 # []"
    by (simp add: n)
  from addRequest_reuses_free [OF h] e show ?thesis
    by (simp add: n)
qed

subsection \<open>Release\<close>

text \<open>
  C5. A socket that is released with nobody waiting and that may be pooled (its request
  asked for keep-alive, it is not destroyed, the Agent keeps sockets alive) is removed
  and destroyed exactly when the idle and busy sockets of its name together exceed
  \<^verbatim>\<open>maxSockets\<close> or the idle ones have reached \<^verbatim>\<open>maxFreeSockets\<close>; otherwise it moves from
  the busy sockets to the end of the idle ones and stays live.
\<close>

theorem free_handler_pools_or_closes:
  assumes "queue w (getName opts) = []"
    and "httpMessage (heap w s) = Some True"
    and "\<not> destroyed (heap w s)"
    and "keepAlive ag"
  shows "if enat (length (idle w (getName opts)) + length (busy w (getName opts))) > maxSockets ag
            \<or> enat (length (idle w (getName opts))) \<ge> maxFreeSockets ag
         then destroyed (heap (free_handler ag w s opts) s) \<and>
              busy (free_handler ag w s opts) (getName opts) = remove1 s (busy w (getName opts)) \<and>
              idle (free_handler ag w s opts) (getName opts) = idle w (getName opts)
         else \<not> destroyed (heap (free_handler ag w s opts) s) \<and>
              busy (free_handler ag w s opts) (getName opts) = remove1 s (busy w (getName opts)) \<and>
              idle (free_handler ag w s opts) (getName opts) = idle w (getName opts) @ [s]"
  using assms
  by (simp add: free_handler.simps [of ag w s opts] Let_def removeSocket_no_queue
      destroy_socket_def entry_remove_from entry_update)

text \<open>
  Witness for C5, the scenario of the claim: with \<^verbatim>\<open>maxFreeSockets = 1\<close> and socket 0
  already idle, the release of socket 1 leaves one idle socket and destroys socket 1.
\<close>

theorem free_handler_pools_or_closes_witness:
  "idle one_pooled ''a:80::'' = [0] \<and> busy one_pooled ''a:80::'' = [1] \<and>
   idle (free_handler one_free_agent one_pooled 1 dest) ''a:80::'' = [0] \<and>
   busy (free_handler one_free_agent one_pooled 1 dest) ''a:80::'' = [] \<and>
   destroyed (heap (free_handler one_free_agent one_pooled 1 dest) 1)"
proof -
  have n: "getName dest = ''a:80::''"
    by code_simp
  have w: "requests one_pooled = [] \<and> sockets one_pooled = [(''a:80::'', [1])] \<and>
           freeSockets one_pooled = [(''a:80::'', [0])] \<and>
           httpMessage (heap one_pooled 1) = Some True \<and> \<not> destroyed (heap one_pooled 1)"
    by code_simp
  have a: "keepAlive one_free_agent" and f: "maxFreeSockets one_free_agent = 1"
    by (simp_all add: one_free_agent_def)
  from w have q: "queue one_pooled (getName dest) = []"
    by (simp add: entry_def)
  from w have m: "httpMessage (heap one_pooled 1) = Some True"
    and d: "\<not> destroyed (heap one_pooled 1)"
    by simp_all
  from w have e: "idle one_pooled ''a:80::'' = [0] \<and> busy one_pooled ''a:80::'' = [1]"
    by (simp add: entry_def)
  from free_handler_pools_or_closes [OF q m d a] e show ?thesis
    by (simp add: n f one_enat_def)
qed

text \<open>
  A request that finds no idle socket and the limit reached is appended to the queue of
  its name; nothing else changes under the name.
\<close>

lemma addRequest_enqueues_at_end:
  assumes "idle w (getName opts) = []"
    and "\<not> enat (length (busy w (getName opts))) < maxSockets ag"
  shows "queue (addRequest ag w r opts) (getName opts) = queue w (getName opts) @ [r] \<and>
         busy (addRequest ag w r opts) (getName opts) = busy w (getName opts) \<and>
         idle (addRequest ag w r opts) (getName opts) = [] \<and>
         effects (addRequest ag w r opts) = effects w"
  using assms
  by (auto simp: addRequest_def Let_def entry_update entry_None)

text \<open>
  A live socket released \<open>n\<close> times, with at least \<open>n\<close> requests waiting, is handed to the
  first \<open>n\<close> of them in the order of the queue.
\<close>

lemma release_times_serves_in_order:
  assumes "\<not> destroyed (heap w s)"
    and "n \<le> length (queue w (getName opts))"
  shows "effects (release_times ag w s opts n) =
           effects w @ map (\<lambda>r. OnSocket r s) (take n (queue w (getName opts))) \<and>
         queue (release_times ag w s opts n) (getName opts) = drop n (queue w (getName opts)) \<and>
         sockets (release_times ag w s opts n) = sockets w \<and>
         freeSockets (release_times ag w s opts n) = freeSockets w"
  using assms
proof (induction n arbitrary: w)
  case 0
  then show ?case
    by simp
next
  case (Suc n)
  then obtain r rs where q: "queue w (getName opts) = r # rs"
    by (cases "queue w (getName opts)") auto
  let ?w = "free_handler ag w s opts"
  from Suc.prems(1) q have h: "effects ?w = effects w @ [OnSocket r s]"
    "queue ?w (getName opts) = rs" "sockets ?w = sockets w" "freeSockets ?w = freeSockets w"
    "heap ?w = heap w"
    by (simp_all add: free_handler_handoff shift_request_def entry_update entry_delete)
  with Suc.prems q have "\<not> destroyed (heap ?w s)" "n \<le> length (queue ?w (getName opts))"
    by simp_all
  from Suc.IH [OF this] h q show ?case
    by simp
qed

text \<open>
  C3, as the code has it. Requests wait in the order they came: a request that has to
  wait is appended to the end of the queue of its name. When a socket that is not
  destroyed is released while requests wait for its destination, the oldest of them
  (the head of the queue) leaves the queue and is handed this socket; the busy and the
  idle sockets are left as they are, so the socket stays busy and does not become idle.
  Released again and again, the socket serves the waiting requests strictly in the order
  of the queue.
\<close>

theorem free_handler_hands_over:
  "(idle w (getName opts) = [] \<and> \<not> enat (length (busy w (getName opts))) < maxSockets ag \<longrightarrow>
      queue (addRequest ag w r' opts) (getName opts) = queue w (getName opts) @ [r']) \<and>
   (\<not> destroyed (heap w s) \<and> queue w (getName opts) = r # rs \<longrightarrow>
      effects (free_handler ag w s opts) = effects w @ [OnSocket r s] \<and>
      queue (free_handler ag w s opts) (getName opts) = rs \<and>
      sockets (free_handler ag w s opts) = sockets w \<and>
      freeSockets (free_handler ag w s opts) = freeSockets w) \<and>
   (\<not> destroyed (heap w s) \<and> n \<le> length (queue w (getName opts)) \<longrightarrow>
      effects (release_times ag w s opts n) =
        effects w @ map (\<lambda>r. OnSocket r s) (take n (queue w (getName opts))) \<and>
      queue (release_times ag w s opts n) (getName opts) = drop n (queue w (getName opts)) \<and>
      sockets (release_times ag w s opts n) = sockets w \<and>
      freeSockets (release_times ag w s opts n) = freeSockets w)"
proof (intro conjI impI)
  assume "idle w (getName opts) = [] \<and> \<not> enat (length (busy w (getName opts))) < maxSockets ag"
  then show "queue (addRequest ag w r' opts) (getName opts) = queue w (getName opts) @ [r']"
    by (simp add: addRequest_enqueues_at_end)
next
  assume a: "\<not> destroyed (heap w s) \<and> queue w (getName opts) = r # rs"
  then show "effects (free_handler ag w s opts) = effects w @ [OnSocket r s]"
    and "queue (free_handler ag w s opts) (getName opts) = rs"
    and "sockets (free_handler ag w s opts) = sockets w"
    and "freeSockets (free_handler ag w s opts) = freeSockets w"
    by (simp_all add: free_handler_handoff shift_request_def entry_update entry_delete)
next
  assume a: "\<not> destroyed (heap w s) \<and> n \<le> length (queue w (getName opts))"
  then have d: "\<not> destroyed (heap w s)" and l: "n \<le> length (queue w (getName opts))"
    by simp_all
  from release_times_serves_in_order [OF d l]
  show "effects (release_times ag w s opts n) =
          effects w @ map (\<lambda>r. OnSocket r s) (take n (queue w (getName opts)))"
    and "queue (release_times ag w s opts n) (getName opts) = drop n (queue w (getName opts))"
    and "sockets (release_times ag w s opts n) = sockets w"
    and "freeSockets (release_times ag w s opts n) = freeSockets w"
    by simp_all
qed

text \<open>
  Witness for C3. At the limit of one socket, with request 2 waiting, request 3 is
  queued behind request 2. The release of socket 0 then hands it to request 2 and leaves
  request 3 waiting; socket 0 stays busy and no socket is idle (the scenario of the
  specification). Two releases serve request 2, then request 3.
\<close>

theorem free_handler_hands_over_witness:
  "queue one_waiting ''a:80::'' = [2] \<and>
   queue (addRequest direct_agent one_waiting 3 dest) ''a:80::'' = [2, 3] \<and>
   queue two_waiting ''a:80::'' = [2, 3] \<and>
   busy two_waiting ''a:80::'' = [0] \<and> idle two_waiting ''a:80::'' = [] \<and>
   effects (free_handler direct_agent two_waiting 0 dest) =
     effects two_waiting @ [OnSocket 2 0] \<and>
   queue (free_handler direct_agent two_waiting 0 dest) ''a:80::'' = [3] \<and>
   busy (free_handler direct_agent two_waiting 0 dest) ''a:80::'' = [0] \<and>
   idle (free_handler direct_agent two_waiting 0 dest) ''a:80::'' = [] \<and>
   effects (release_times direct_agent two_waiting 0 dest 2) =
     effects two_waiting @ [OnSocket 2 0, OnSocket 3 0] \<and>
   queue (release_times direct_agent two_waiting 0 dest 2) ''a:80::'' = []"
proof -
  have n: "getName dest = ''a:80::''"
    by code_simp
  have o: "idle one_waiting (getName dest) = [] \<and>
           \<not> enat (length (busy one_waiting (getName dest))) < maxSockets direct_agent"
    by code_simp
  have p: "queue one_waiting ''a:80::'' = [2]"
    by code_simp
  have d: "\<not> destroyed (heap two_waiting 0)"
    by code_simp
  have q: "queue two_waiting (getName dest) = 2 # [3]"
    by code_simp
  have e: "busy two_waiting ''a:80::'' = [0] \<and> idle two_waiting ''a:80::'' = []"
    by code_simp
  note t = free_handler_hands_over
    [where ag = direct_agent and opts = dest and s = 0 and r = 2 and rs = "[3]" and n = 2]
  from t [where w = one_waiting and r' = 3] o p
  have a: "queue (addRequest direct_agent one_waiting 3 dest) ''a:80::'' = [2, 3]"
    by (simp add: n)
  from t [where w = two_waiting and r' = 3] d q
  have b: "effects (free_handler direct_agent two_waiting 0 dest) =
             effects two_waiting @ [OnSocket 2 0] \<and>
           queue (free_handler direct_agent two_waiting 0 dest) (getName dest) = [3] \<and>
           sockets (free_handler direct_agent two_waiting 0 dest) = sockets two_waiting \<and>
           freeSockets (free_handler direct_agent two_waiting 0 dest) = freeSockets two_waiting"
    and c: "effects (release_times direct_agent two_waiting 0 dest 2) =
             effects two_waiting @ [OnSocket 2 0, OnSocket 3 0] \<and>
           queue (release_times direct_agent two_waiting 0 dest 2) (getName dest) = []"
    by simp_all
  from a b c p q e show ?thesis
    by (simp add: n)
qed

text \<open>
  Counterexample to C3 as stated: socket 0 is destroyed when it is released and request 2
  waits. The guard \<^verbatim>\<open>!socket.destroyed\<close> sends the release to \<^verbatim>\<open>removeSocket\<close>: socket 0
  leaves the busy sockets, and request 2 is handed the new socket 1, not socket 0.
\<close>

theorem release_closed_connection_counterexample:
  "queue one_waiting_closed ''a:80::'' = [2] \<and>
   busy one_waiting_closed ''a:80::'' = [0] \<and>
   busy (emit_free direct_agent one_waiting_closed 0) ''a:80::'' = [1] \<and>
   effects (emit_free direct_agent one_waiting_closed 0) =
     effects one_waiting_closed @ [Connect 2 ''a:80::'', OnSocket 2 1]"
  by code_simp

subsection \<open>Removal\<close>




text \<open>
  C1, the failing input. Through a tunnel, socket 0 closes while request 2 waits;
  \<^verbatim>\<open>removeSocket\<close> asks for a replacement and the tunnel client reports an error. The
  callback of \<^verbatim>\<open>removeSocket\<close> then evaluates \<^verbatim>\<open>socket.emit\<close> on an undefined socket: a
  TypeError is thrown, request 2 is still queued and no error was emitted on any request.
\<close>

theorem failed_replacement_throws:
  "thrown failed_replacement = Some TypeError \<and>
   requests (final failed_replacement) = [(''a:80::'', [2])] \<and>
   sockets (final failed_replacement) = [] \<and>
   effects (final failed_replacement) =
     [Connect 1 ''a:80::'', OnSocket 1 0, Connect 2 ''a:80::'']"
  by code_simp

text \<open>
  C8, the failing input. After \<^verbatim>\<open>agentRemove\<close> on socket 0 the listeners \<^verbatim>\<open>free\<close>,
  \<^verbatim>\<open>close\<close> and \<^verbatim>\<open>agentRemove\<close> are gone and socket 0 is in no collection, but
  \<^verbatim>\<open>onTunnelError\<close> is still installed: a \<^verbatim>\<open>tunnelError\<close> of socket 0 reaches the Agent,
  which fails the waiting request 3.
\<close>

theorem agentRemove_keeps_tunnelError_listener:
  "busy taken_over ''a:80::'' = [1] \<and> queue taken_over ''a:80::'' = [3] \<and>
   \<not> onFree (heap taken_over 0) \<and> \<not> onClose (heap taken_over 0) \<and>
   \<not> onRemove (heap taken_over 0) \<and> onTunnelError (heap taken_over 0) \<and>
   effects (final (step direct_agent taken_over (TunnelError 0 (ConnectError 9)))) =
     effects taken_over @ [EmitError 3 (ConnectError 9)] \<and>
   requests (final (step direct_agent taken_over (TunnelError 0 (ConnectError 9)))) = []"
  by code_simp

subsection \<open>Pruning\<close>

text \<open>
  C7, the failing input. The first request for a destination makes \<^verbatim>\<open>addRequest\<close> store
  an empty array of busy sockets under the name; when the tunnel attempt fails, the error
  goes to the request and the empty array stays: the name has no busy socket, no idle
  socket and no waiting request, and still has an entry.
\<close>

theorem failed_acquire_leaves_empty_entry:
  "sockets failed_acquire = [(''a:80::'', [])] \<and>
   freeSockets failed_acquire = [] \<and>
   requests failed_acquire = [] \<and>
   pending failed_acquire = [] \<and>
   effects failed_acquire = [Connect 1 ''a:80::'', EmitError 1 (ConnectError 7)]"
  by code_simp

subsection \<open>Shutdown\<close>

text \<open>
  C9, as the code has it. \<^verbatim>\<open>destroy\<close> destroys every socket the Agent tracks, busy or
  idle, under every name; it leaves the three objects of the registry as they are (the
  entries go when the close events of the sockets are handled).
\<close>

theorem destroy_closes_tracked:
  "(\<forall>name. \<forall>s \<in> set (busy w name) \<union> set (idle w name). destroyed (heap (destroy w) s)) \<and>
   sockets (destroy w) = sockets w \<and>
   freeSockets (destroy w) = freeSockets w \<and>
   requests (destroy w) = requests w"
  by (auto simp: destroy_def foldl_destroy_socket_registry foldl_destroy_socket_destroyed
      dest: entry_member)

text \<open>Witness for C9: with socket 1 busy and socket 0 idle, both are destroyed.\<close>

theorem destroy_closes_tracked_witness:
  "busy one_pooled ''a:80::'' = [1] \<and> idle one_pooled ''a:80::'' = [0] \<and>
   destroyed (heap (destroy one_pooled) 1) \<and> destroyed (heap (destroy one_pooled) 0)"
proof -
  have e: "busy one_pooled ''a:80::'' = [1] \<and> idle one_pooled ''a:80::'' = [0]"
    by code_simp
  from destroy_closes_tracked [of one_pooled]
  have "\<forall>s \<in> set (busy one_pooled ''a:80::'') \<union> set (idle one_pooled ''a:80::'').
          destroyed (heap (destroy one_pooled) s)"
    by blast
  with e show ?thesis
    by simp
qed

text \<open>
  Counterexample to C9 as stated: after \<^verbatim>\<open>destroy\<close> the registry still holds the busy
  socket 1 and the idle socket 0.
\<close>

theorem destroy_keeps_registry_counterexample:
  "sockets (destroy one_pooled) = [(''a:80::'', [1])] \<and>
   freeSockets (destroy one_pooled) = [(''a:80::'', [0])]"
  by code_simp

subsection \<open>The invariant of conforming runs\<close>










































text \<open>
  Each condition of the limit is needed. The run above is not orderly (its second
  removal removes nothing while request 3 waits). Through a tunnel, two acquisitions
  made before the first callback both connect. An Agent whose own options bind a local
  address tracks its sockets under another name than the one \<^verbatim>\<open>addRequest\<close> counts. And
  a socket released again while it is idle is pooled twice, then reused: it is busy and
  idle at once, in a run that does not conform.
\<close>

lemma tunnel_exceeds_limit:
  "keeps_name tunnel_agent \<and> orderly tunnel_agent init two_at_once \<and>
   maxSockets tunnel_agent = 1 \<and>
   busy (final (run tunnel_agent init two_at_once)) ''a:80::'' = [0, 1]"
  by code_simp

lemma changed_name_exceeds_limit:
  "\<not> tunnel bound_agent \<and> orderly bound_agent init [AddRequest 1 dest, AddRequest 2 dest] \<and>
   maxSockets bound_agent = 1 \<and>
   busy (final (run bound_agent init [AddRequest 1 dest, AddRequest 2 dest]))
     ''a:80:10.0.0.1:'' = [0, 1]"
  by code_simp

lemma released_twice_overlaps:
  "\<not> conforming direct_agent init released_twice \<and>
   \<not> orderly direct_agent init released_twice \<and>
   busy (final (run direct_agent init released_twice)) ''a:80::'' = [0] \<and>
   idle (final (run direct_agent init released_twice)) ''a:80::'' = [0]"
  by code_simp

lemma reaped_then_closed_not_orderly:
  "\<not> orderly direct_agent init reaped_then_closed"
  by code_simp

subsection \<open>The replacement that succeeds\<close>

text \<open>
  With the direct connector, and options whose name the Agent's own options do not
  change, a removal while requests wait makes a socket on behalf of the oldest of them
  and hands it over through the \<^verbatim>\<open>free\<close> listener: the new socket is busy and the
  request has left the queue.
\<close>

lemma removeSocket_replacement_served:
  assumes "\<not> tunnel ag"
    and "getName (util_extend opts (aoptions ag)) = getName opts"
    and "queue w (getName opts) = r # rs"
  shows "effects (removeSocket ag w s opts) =
           effects w @ [Connect r (getName opts), OnSocket r (nextSock w)] \<and>
         queue (removeSocket ag w s opts) (getName opts) = rs \<and>
         busy (removeSocket ag w s opts) (getName opts) =
           remove1 s (busy w (getName opts)) @ [nextSock w]"
  using assms
  by (simp add: removeSocket.simps [of ag w s opts] createSocket.simps
      afterCreateSocket.simps free_handler_handoff Let_def alloc_def new_socket_def
      shift_request_def entry_update entry_delete entry_remove_from)

end
